theory Spec2Isabelle
  imports Main "HOL-Library.Word"
begin

section \<open>Data model of package cluster\<close>

text \<open>
  Byte slices (\<^verbatim>\<open>[]byte\<close>) are lists of 8-bit words; Go's \<^verbatim>\<open>len(b) == 0\<close> holds for
  the nil slice and for the empty slice alike, both are the empty list here.
  \<^verbatim>\<open>net.IP\<close> is a byte slice as well.
\<close>

type_synonym byte = "8 word"
type_synonym IP = "byte list"

text \<open>\<^verbatim>\<open>const KeyLen = 32\<close>: the fixed length of cluster keys, "must be checked by callers".\<close>

definition KeyLen :: nat where
  "KeyLen = 32"

text \<open>
  \<^verbatim>\<open>common.Node\<close>, as far as this package touches it: the snapshot built by
  \<^verbatim>\<open>Members\<close> sets \<^verbatim>\<open>Name\<close>, \<^verbatim>\<open>Addr\<close> and \<^verbatim>\<open>Meta\<close> and leaves every
  other field at its zero value.
\<close>

record node =
  Name :: string
  Addr :: IP
  Meta :: "byte list"

text \<open>
  The persisted cluster state. Its declaration lives in a file of the package that is
  not part of the sources at hand; \<^verbatim>\<open>cluster.go\<close> reads and writes the two fields
  \<^verbatim>\<open>ClusterKey\<close> and \<^verbatim>\<open>Nodes\<close>. Functions that only touch the key are typed over
  the record scheme, so that what they prove holds for a state with any further fields.
\<close>

record state =
  ClusterKey :: "byte list"
  Nodes :: "node list"

text \<open>\<^verbatim>\<open>memberlist.Node\<close>, the engine's view of a member (fields read by this package).\<close>

record mlnode =
  mlName :: string
  mlAddr :: IP
  mlMeta :: "byte list"

datatype NodeEventType = NodeJoin | NodeLeave | NodeUpdate

record NodeEvent =
  Event :: NodeEventType
  Node :: mlnode

text \<open>
  Errors returned by the package. The wrapped cause of \<^verbatim>\<open>fmt.Errorf("...: %w", err)\<close> is
  kept as the constructor's argument; external causes are opaque strings.
\<close>

datatype error =
    ReadingRandomSource string
  | ComputingClusterKey error
  | CreatingMemberlist string
  | JoiningCluster string
  | CouldNotJoinAny

section \<open>Key bootstrap\<close>

text \<open>
  The random source behind \<^verbatim>\<open>crypto/rand.Read\<close>: either it fails with an error, or it
  fills the whole buffer it is given (\<^verbatim>\<open>n == len(b)\<close> iff \<^verbatim>\<open>err == nil\<close>). The bytes it
  delivers are a parameter: position \<open>i\<close> of the buffer receives \<open>rnd_bytes r i\<close>.
\<close>

record rand_source =
  rnd_err :: "string option"
  rnd_bytes :: "nat \<Rightarrow> byte"

definition rand_Read :: "rand_source \<Rightarrow> byte list \<Rightarrow> byte list \<times> string option" where
  "rand_Read r b =
     (case rnd_err r of
        Some e \<Rightarrow> (b, Some e)
      | None \<Rightarrow> (map (rnd_bytes r) [0..<length b], None))"

text \<open>
  \<^verbatim>\<open>func computeClusterKey(state *state, clusterKey []byte) ([]byte, error)\<close>.
  The state behind the pointer is passed in and returned; the second component is what
  the function prints on standard output (the freshly generated key, shown only when
  standard output is a terminal; the base64 rendering is left to the reader of the
  output); the third is the pair of results, an error or the key.
  On the error path the function returns before the assignment to
  \<^verbatim>\<open>state.ClusterKey\<close>, so the state is returned as it came.
\<close>

definition computeClusterKey ::
  "rand_source \<Rightarrow> bool \<Rightarrow> 'a state_scheme \<Rightarrow> byte list
     \<Rightarrow> 'a state_scheme \<times> byte list option \<times> (error + byte list)" where
  "computeClusterKey rnd isTerminal st clusterKey =
     (let clusterKey1 = (if length clusterKey = 0 then ClusterKey st else clusterKey) in
      if length clusterKey1 = 0 then
        (case rand_Read rnd (replicate KeyLen 0) of
           (buf, Some err) \<Rightarrow> (st, None, Inl (ReadingRandomSource err))
         | (clusterKey2, None) \<Rightarrow>
             (st\<lparr>ClusterKey := clusterKey2\<rparr>,
              (if isTerminal then Some clusterKey2 else None),
              Inr clusterKey2))
      else (st\<lparr>ClusterKey := clusterKey1\<rparr>, None, Inr clusterKey1))"

text \<open>The key a call resolves to, when it resolves to one.\<close>

definition resolvedKey :: "'s \<times> 'o \<times> (error + byte list) \<Rightarrow> byte list option" where
  "resolvedKey r = (case snd (snd r) of Inl e \<Rightarrow> None | Inr k \<Rightarrow> Some k)"

text \<open>The 32 bytes a working random source delivers.\<close>

definition freshKey :: "rand_source \<Rightarrow> byte list" where
  "freshKey rnd = map (rnd_bytes rnd) [0..<KeyLen]"

section \<open>The collaborators: gossip engine, name resolution, state file\<close>

text \<open>
  \<^verbatim>\<open>memberlist.Config\<close>, the fields this package sets (the log writer apart, which
  no method reads). The delegate installed by
  \<^verbatim>\<open>Update\<close> is \<^verbatim>\<open>&delegateNode{c.localNode}\<close>, a wrapper of the local node pointer;
  \<^verbatim>\<open>Events\<close> records whether the channel event delegate over \<^verbatim>\<open>c.events\<close> is in
  place. Go's \<^verbatim>\<open>int\<close> ports are integers (no arithmetic is done on them).
\<close>

datatype delegateNode = DelegateNode "node option"

record Config =
  cfgName :: string
  SecretKey :: "byte list"
  BindAddr :: string
  BindPort :: int
  AdvertiseAddr :: string
  AdvertisePort :: int
  Conflict :: "delegateNode option"
  Delegate :: "delegateNode option"
  Events :: bool

text \<open>
  The gossip engine (\<^verbatim>\<open>*memberlist.Memberlist\<close>) is a black box with its own state
  \<open>'ml\<close>; the package only calls the operations below. An operation that changes the
  engine returns the engine after the call. \<^verbatim>\<open>Join\<close> returns the number of hosts
  contacted and an error; \<^verbatim>\<open>NumMembers\<close> is a Go \<^verbatim>\<open>int\<close>.
\<close>

record 'ml memberlist_api =
  ml_DefaultWANConfig :: Config
  ml_Create :: "Config \<Rightarrow> string + 'ml"
  ml_LocalNode :: "'ml \<Rightarrow> mlnode"
  ml_Members :: "'ml \<Rightarrow> mlnode list"
  ml_NumMembers :: "'ml \<Rightarrow> int"
  ml_Join :: "'ml \<Rightarrow> string list \<Rightarrow> 'ml \<times> int \<times> string option"
  ml_Leave :: "'ml \<Rightarrow> int \<Rightarrow> 'ml"
  ml_Shutdown :: "'ml \<Rightarrow> 'ml"
  ml_UpdateNode :: "'ml \<Rightarrow> Config \<Rightarrow> int \<Rightarrow> 'ml"

text \<open>
  Package \<^verbatim>\<open>net\<close>: \<^verbatim>\<open>ParseIP\<close> returns nil for a string that is no literal
  address, \<^verbatim>\<open>LookupIP\<close> returns the addresses of a name or an error,
  \<^verbatim>\<open>IP.Equal\<close> and \<^verbatim>\<open>IP.String\<close> compare and print addresses.
\<close>

record net_api =
  ParseIP :: "string \<Rightarrow> IP option"
  LookupIP :: "string \<Rightarrow> string + IP list"
  IP_Equal :: "IP \<Rightarrow> IP \<Rightarrow> bool"
  IP_String :: "IP \<Rightarrow> string"

text \<open>\<^verbatim>\<open>time.Second\<close>, in nanoseconds as \<^verbatim>\<open>time.Duration\<close> counts.\<close>

definition Second :: int where
  "Second = 1000000000"

text \<open>
  What a method does to its collaborators, in the order it does it: each call that
  leaves the process (a write of the state file, a command to the engine, a log line, a
  send on the channel returned by \<^verbatim>\<open>Members\<close>) is appended to a log.
\<close>

datatype call =
    StateSave string state
  | MlJoin "string list"
  | MlLeave int
  | MlShutdown
  | MlUpdateNode int
  | LogInfo NodeEventType mlnode
  | Publish "node list"

text \<open>
  Modelled from the spec: \<^verbatim>\<open>loadState(state, name)\<close>, whose body is in a file of the
  package that is not among the sources. The spec's contract is
  \<^verbatim>\<open>load(name) -> ClusterState | absent\<close>, where a missing or corrupt file is not
  an error but "no prior state": the state passed in is then left as it is. The state
  files are a map from the cluster name to the stored state.
\<close>

definition loadState :: "(string \<rightharpoonup> state) \<Rightarrow> state \<Rightarrow> string \<Rightarrow> state" where
  "loadState files st nm = (case files nm of None \<Rightarrow> st | Some stored \<Rightarrow> stored)"

section \<open>The cluster facade\<close>

text \<open>
  \<^verbatim>\<open>type Cluster struct\<close>. \<^verbatim>\<open>localNode\<close> is a pointer, nil until \<^verbatim>\<open>Update\<close>
  assigns it. The buffered channel \<^verbatim>\<open>events\<close> is the input of the loop started by
  \<^verbatim>\<open>Members\<close> and is passed to that loop as the sequence of events received.
\<close>

record 'ml Cluster =
  name :: string
  ml :: 'ml
  mlConfig :: Config
  localNode :: "node option"
  LocalName :: string
  state :: state

text \<open>
  \<^verbatim>\<open>func New(name, init, clusterKey, bindAddr, bindPort, advertiseAddr, advertisePort,
  useIPAsName) (*Cluster, error)\<close>. The first component of the result is what
  \<^verbatim>\<open>computeClusterKey\<close> printed.
\<close>

definition New ::
  "'ml memberlist_api \<Rightarrow> (string \<rightharpoonup> state) \<Rightarrow> rand_source \<Rightarrow> bool
     \<Rightarrow> string \<Rightarrow> bool \<Rightarrow> byte list \<Rightarrow> string \<Rightarrow> int \<Rightarrow> string \<Rightarrow> int \<Rightarrow> bool
     \<Rightarrow> byte list option \<times> (error + 'ml Cluster)" where
  "New api files rnd isTerminal nm init clusterKey bindAddr bindPort advertiseAddr
       advertisePort useIPAsName =
     (let st0 = \<lparr>ClusterKey = [], Nodes = []\<rparr>;
          st1 = (if \<not> init then loadState files st0 nm else st0)
      in case computeClusterKey rnd isTerminal st1 clusterKey of
           (st2, out, Inl err) \<Rightarrow> (out, Inl (ComputingClusterKey err))
         | (st2, out, Inr key) \<Rightarrow>
             (let cfg1 = (ml_DefaultWANConfig api)
                           \<lparr>SecretKey := key, BindAddr := bindAddr, BindPort := bindPort,
                            AdvertiseAddr := advertiseAddr, AdvertisePort := advertisePort\<rparr>;
                  cfg2 = (if useIPAsName \<and> bindAddr \<noteq> ''0.0.0.0''
                          then cfg1\<lparr>cfgName := bindAddr\<rparr> else cfg1)
              in case ml_Create api cfg2 of
                   Inl err \<Rightarrow> (out, Inl (CreatingMemberlist err))
                 | Inr m \<Rightarrow>
                     (out, Inr \<lparr>name = nm, ml = m, mlConfig = cfg2, localNode = None,
                                LocalName = mlName (ml_LocalNode api m), state = st2\<rparr>)))"

text \<open>
  \<^verbatim>\<open>func (c *Cluster) Name() string { return c.localNode.Name }\<close>: reading a field
  through a nil pointer is a run-time panic.
\<close>

datatype panic = NilPointerDereference

definition Cluster_Name :: "'ml Cluster \<Rightarrow> panic + string" where
  "Cluster_Name c =
     (case localNode c of
        None \<Rightarrow> Inl NilPointerDereference
      | Some n \<Rightarrow> Inr (Name n))"

subsection \<open>Join\<close>

text \<open>Lines 87 to 93: the loop that resolves the hosts, appending to \<^verbatim>\<open>addrs\<close>.\<close>

fun resolveHosts :: "net_api \<Rightarrow> IP list \<Rightarrow> string list \<Rightarrow> IP list" where
  "resolveHosts net addrs [] = addrs"
| "resolveHosts net addrs (host # hosts) =
     (case ParseIP net host of
        Some addr \<Rightarrow> resolveHosts net (addrs @ [addr]) hosts
      | None \<Rightarrow>
          (case LookupIP net host of
             Inr ips \<Rightarrow> resolveHosts net (addrs @ ips) hosts
           | Inl err \<Rightarrow> resolveHosts net addrs hosts))"

text \<open>Lines 97 to 99: the loop that appends the addresses of the known nodes.\<close>

fun addKnownHosts :: "IP list \<Rightarrow> node list \<Rightarrow> IP list" where
  "addKnownHosts addrs [] = addrs"
| "addKnownHosts addrs (n # ns) = addKnownHosts (addrs @ [Addr n]) ns"

text \<open>Lines 83 to 100: the candidate addresses of a call.\<close>

definition joinAddrs :: "net_api \<Rightarrow> 'ml Cluster \<Rightarrow> string list \<Rightarrow> IP list" where
  "joinAddrs net c hosts =
     (let addrs = resolveHosts net [] hosts
      in if length addrs = 0 then addKnownHosts addrs (Nodes (state c)) else addrs)"

text \<open>
  Lines 107 to 111: the inner loop; \<open>True\<close> is the \<^verbatim>\<open>continue AddrLoop\<close>, taken at the
  first member whose address equals \<^verbatim>\<open>addr\<close>.
\<close>

fun isMember :: "net_api \<Rightarrow> mlnode list \<Rightarrow> IP \<Rightarrow> bool" where
  "isMember net [] addr = False"
| "isMember net (member # members) addr =
     (if IP_Equal net (mlAddr member) addr then True else isMember net members addr)"

text \<open>Lines 106 to 113: the outer loop, appending to \<^verbatim>\<open>targets\<close>.\<close>

fun filterMembers :: "net_api \<Rightarrow> mlnode list \<Rightarrow> string list \<Rightarrow> IP list \<Rightarrow> string list" where
  "filterMembers net members targets [] = targets"
| "filterMembers net members targets (addr # addrs) =
     (if isMember net members addr then filterMembers net members targets addrs
      else filterMembers net members (targets @ [IP_String net addr]) addrs)"

text \<open>Lines 102 to 113: the targets handed to the engine.\<close>

definition joinTargets ::
  "'ml memberlist_api \<Rightarrow> net_api \<Rightarrow> 'ml Cluster \<Rightarrow> string list \<Rightarrow> string list" where
  "joinTargets api net c hosts =
     filterMembers net (ml_Members api (ml c)) [] (joinAddrs net c hosts)"

text \<open>
  \<^verbatim>\<open>func (c *Cluster) Join(hosts []string) error\<close>. The result is the cluster after the
  call, the calls made, and the error returned (\<open>None\<close> is nil). \<^verbatim>\<open>NumMembers\<close> is
  read from the engine as \<^verbatim>\<open>Join\<close> left it, and only when that call returned no
  error.
\<close>

definition Join ::
  "'ml memberlist_api \<Rightarrow> net_api \<Rightarrow> 'ml Cluster \<Rightarrow> string list
     \<Rightarrow> 'ml Cluster \<times> call list \<times> error option" where
  "Join api net c hosts =
     (let targets = joinTargets api net c hosts
      in case ml_Join api (ml c) targets of
           (m1, joined, Some err) \<Rightarrow> (c\<lparr>ml := m1\<rparr>, [MlJoin targets], Some (JoiningCluster err))
         | (m1, joined, None) \<Rightarrow>
             (if length targets > 0 \<and> ml_NumMembers api m1 < 2
              then (c\<lparr>ml := m1\<rparr>, [MlJoin targets], Some CouldNotJoinAny)
              else (c\<lparr>ml := m1\<rparr>, [MlJoin targets], None)))"

subsection \<open>Leave and Update\<close>

text \<open>
  The statements of these methods, each as a step on the cluster and the log of calls.

  Modelled from the spec: \<^verbatim>\<open>c.state.save(c.name)\<close>, whose body is in a file of the
  package that is not among the sources. By the spec's contract
  \<^verbatim>\<open>save(name, ClusterState) -> success|failure\<close> it writes the state it is given to
  the file of that name and is best-effort; both callers drop its result. The call is
  logged with the name and the state it is given, and changes nothing in memory.
\<close>

definition state_save :: "string \<Rightarrow> 'ml Cluster \<times> call list \<Rightarrow> 'ml Cluster \<times> call list" where
  "state_save nm w = (case w of (c, calls) \<Rightarrow> (c, calls @ [StateSave nm (state c)]))"

definition engine_Leave ::
  "'ml memberlist_api \<Rightarrow> int \<Rightarrow> 'ml Cluster \<times> call list \<Rightarrow> 'ml Cluster \<times> call list" where
  "engine_Leave api timeout w =
     (case w of (c, calls) \<Rightarrow> (c\<lparr>ml := ml_Leave api (ml c) timeout\<rparr>, calls @ [MlLeave timeout]))"

definition engine_Shutdown ::
  "'ml memberlist_api \<Rightarrow> 'ml Cluster \<times> call list \<Rightarrow> 'ml Cluster \<times> call list" where
  "engine_Shutdown api w =
     (case w of (c, calls) \<Rightarrow> (c\<lparr>ml := ml_Shutdown api (ml c)\<rparr>, calls @ [MlShutdown]))"

definition engine_UpdateNode ::
  "'ml memberlist_api \<Rightarrow> int \<Rightarrow> 'ml Cluster \<times> call list \<Rightarrow> 'ml Cluster \<times> call list" where
  "engine_UpdateNode api timeout w =
     (case w of (c, calls) \<Rightarrow>
        (c\<lparr>ml := ml_UpdateNode api (ml c) (mlConfig c) timeout\<rparr>, calls @ [MlUpdateNode timeout]))"

text \<open>\<^verbatim>\<open>func (c *Cluster) Leave()\<close>, lines 126 to 128.\<close>

definition Leave :: "'ml memberlist_api \<Rightarrow> 'ml Cluster \<Rightarrow> 'ml Cluster \<times> call list" where
  "Leave api c =
     engine_Shutdown api (engine_Leave api (10 * Second) (state_save (name c) (c, [])))"

text \<open>
  \<^verbatim>\<open>func (c *Cluster) Update(localNode *common.Node)\<close>. The argument is a pointer and
  may be nil. The cluster keeps the pointer; here it keeps the node the pointer
  designates at the time of the call.
\<close>

definition Update ::
  "'ml memberlist_api \<Rightarrow> 'ml Cluster \<Rightarrow> node option \<Rightarrow> 'ml Cluster \<times> call list" where
  "Update api c ln =
     (let c1 = c\<lparr>localNode := ln\<rparr>;
          delegate = DelegateNode (localNode c1);
          c2 = c1\<lparr>mlConfig := (mlConfig c1)\<lparr>Conflict := Some delegate\<rparr>\<rparr>;
          c3 = c2\<lparr>mlConfig := (mlConfig c2)\<lparr>Delegate := Some delegate\<rparr>\<rparr>;
          c4 = c3\<lparr>mlConfig := (mlConfig c3)\<lparr>Events := True\<rparr>\<rparr>
      in engine_UpdateNode api (1 * Second) (c4, []))"

subsection \<open>Members\<close>

text \<open>Lines 163 to 173: the snapshot of the engine's roster, built by appending.\<close>

fun snapshotNodes :: "string \<Rightarrow> node list \<Rightarrow> mlnode list \<Rightarrow> node list" where
  "snapshotNodes localName nodes [] = nodes"
| "snapshotNodes localName nodes (n # ns) =
     (if mlName n = localName then snapshotNodes localName nodes ns
      else snapshotNodes localName
             (nodes @ [\<lparr>Name = mlName n, Addr = mlAddr n, Meta = mlMeta n\<rparr>]) ns)"

text \<open>
  One turn of the loop of the goroutine started by \<^verbatim>\<open>Members\<close> (lines 149 to 176),
  for the event received from \<^verbatim>\<open>c.events\<close>. The engine changes on its own between two
  events, so an event comes with the engine as it is when the event is handled.
\<close>

definition membersTurn ::
  "'ml memberlist_api \<Rightarrow> 'ml Cluster \<times> call list \<Rightarrow> NodeEvent \<times> 'ml
     \<Rightarrow> 'ml Cluster \<times> call list" where
  "membersTurn api w received =
     (case w of (c0, calls) \<Rightarrow>
      case received of (event, engine) \<Rightarrow>
        (let c = c0\<lparr>ml := engine\<rparr>
         in if mlName (Node event) = LocalName c then (c, calls)
            else
              (let calls1 = calls @ [LogInfo (Event event) (Node event)];
                   nodes = snapshotNodes (LocalName c) [] (ml_Members api (ml c));
                   c1 = c\<lparr>state := (state c)\<lparr>Nodes := nodes\<rparr>\<rparr>;
                   calls2 = calls1 @ [Publish nodes]
               in state_save (name c1) (c1, calls2))))"

text \<open>
  The loop \<^verbatim>\<open>for { event := <-c.events; ... }\<close> never returns; it blocks when no
  event is there. What it has done after receiving a finite sequence of events (each
  snapshot taken by the reader of the channel) is the fold of its turns.
\<close>

fun membersLoop ::
  "'ml memberlist_api \<Rightarrow> 'ml Cluster \<times> call list \<Rightarrow> (NodeEvent \<times> 'ml) list
     \<Rightarrow> 'ml Cluster \<times> call list" where
  "membersLoop api w [] = w"
| "membersLoop api w (received # rest) = membersLoop api (membersTurn api w received) rest"

text \<open>The snapshots sent on the channel, in the order they were sent.\<close>

fun published :: "call list \<Rightarrow> node list list" where
  "published [] = []"
| "published (Publish nodes # calls) = nodes # published calls"
| "published (other # calls) = published calls"

section \<open>Derived notions used in the statements\<close>

text \<open>What one host contributes to the resolved addresses.\<close>

definition hostAddrs :: "net_api \<Rightarrow> string \<Rightarrow> IP list" where
  "hostAddrs net host =
     (case ParseIP net host of
        Some addr \<Rightarrow> [addr]
      | None \<Rightarrow> (case LookupIP net host of Inr ips \<Rightarrow> ips | Inl err \<Rightarrow> []))"

text \<open>An address that equals the address of some live member.\<close>

definition memberAddr :: "'ml memberlist_api \<Rightarrow> net_api \<Rightarrow> 'ml Cluster \<Rightarrow> IP \<Rightarrow> bool" where
  "memberAddr api net c addr = (\<exists>m \<in> set (ml_Members api (ml c)). IP_Equal net (mlAddr m) addr)"

text \<open>The snapshot of a roster: every member not named like the local node, in order.\<close>

definition rosterWithout :: "string \<Rightarrow> mlnode list \<Rightarrow> node list" where
  "rosterWithout localName members =
     map (\<lambda>n. \<lparr>Name = mlName n, Addr = mlAddr n, Meta = mlMeta n\<rparr>)
       (filter (\<lambda>n. mlName n \<noteq> localName) members)"

section \<open>A small concrete world\<close>

text \<open>
  Three hosts on one network. The engine's state is its roster; joining reaches the
  host at 10.0.0.2 and no other.
\<close>

definition demo_rand :: rand_source where
  "demo_rand = \<lparr>rnd_err = None, rnd_bytes = (\<lambda>i. of_nat (7 * i + 1))\<rparr>"

definition broken_rand :: rand_source where
  "broken_rand = \<lparr>rnd_err = Some ''entropy unavailable'', rnd_bytes = (\<lambda>i. 0)\<rparr>"

definition demo_net :: net_api where
  "demo_net =
     \<lparr>ParseIP = (\<lambda>h. if h = ''10.0.0.1'' then Some [10, 0, 0, 1]
                     else if h = ''10.0.0.2'' then Some [10, 0, 0, 2]
                     else if h = ''10.0.0.9'' then Some [10, 0, 0, 9]
                     else None),
      LookupIP = (\<lambda>h. if h = ''peer3.example'' then Inr [[10, 0, 0, 3]]
                      else Inl ''no such host''),
      IP_Equal = (\<lambda>a b. a = b),
      IP_String = (\<lambda>a. if a = [10, 0, 0, 1] then ''10.0.0.1''
                       else if a = [10, 0, 0, 2] then ''10.0.0.2''
                       else if a = [10, 0, 0, 3] then ''10.0.0.3''
                       else if a = [10, 0, 0, 9] then ''10.0.0.9''
                       else ''?'')\<rparr>"

definition host1 :: mlnode where
  "host1 = \<lparr>mlName = ''host1'', mlAddr = [10, 0, 0, 1], mlMeta = []\<rparr>"

definition host2 :: mlnode where
  "host2 = \<lparr>mlName = ''host2'', mlAddr = [10, 0, 0, 2], mlMeta = [1]\<rparr>"

definition host3 :: mlnode where
  "host3 = \<lparr>mlName = ''host3'', mlAddr = [10, 0, 0, 3], mlMeta = [2]\<rparr>"

definition demo_config :: Config where
  "demo_config =
     \<lparr>cfgName = ''host1'', SecretKey = [], BindAddr = ''0.0.0.0'', BindPort = 7946,
      AdvertiseAddr = [], AdvertisePort = 7946, Conflict = None, Delegate = None,
      Events = False\<rparr>"

definition demo_api :: "mlnode list memberlist_api" where
  "demo_api =
     \<lparr>ml_DefaultWANConfig = demo_config,
      ml_Create = (\<lambda>cfg. Inr [\<lparr>mlName = cfgName cfg, mlAddr = [10, 0, 0, 1], mlMeta = []\<rparr>]),
      ml_LocalNode = (\<lambda>m. case m of [] \<Rightarrow> host1 | n # ns \<Rightarrow> n),
      ml_Members = (\<lambda>m. m),
      ml_NumMembers = (\<lambda>m. int (length m)),
      ml_Join = (\<lambda>m targets.
                   if ''10.0.0.2'' \<in> set targets then (m @ [host2], 1, None)
                   else if targets = [] then (m, 0, None)
                   else (m, 0, Some ''no reachable host'')),
      ml_Leave = (\<lambda>m timeout. m),
      ml_Shutdown = (\<lambda>m. []),
      ml_UpdateNode = (\<lambda>m cfg timeout. m)\<rparr>"

text \<open>
  An engine that reaches every address it is given and reports no error, while every
  one of them turns out to be the local host itself: the roster does not grow.
\<close>

definition loopback_api :: "mlnode list memberlist_api" where
  "loopback_api = demo_api\<lparr>ml_Join := (\<lambda>m targets. (m, int (length targets), None))\<rparr>"

definition demo_cluster :: "mlnode list Cluster" where
  "demo_cluster =
     \<lparr>name = ''wgoverlay'', ml = [host1], mlConfig = demo_config, localNode = None,
      LocalName = ''host1'',
      state = \<lparr>ClusterKey = [], Nodes = [\<lparr>Name = ''host3'', Addr = [10, 0, 0, 3], Meta = [2]\<rparr>]\<rparr>\<rparr>"

definition demo_events :: "(NodeEvent \<times> mlnode list) list" where
  "demo_events =
     [(\<lparr>Event = NodeJoin, Node = host2\<rparr>, [host1, host2]),
      (\<lparr>Event = NodeUpdate, Node = host1\<rparr>, [host1, host2]),
      (\<lparr>Event = NodeJoin, Node = host3\<rparr>, [host3, host1, host2])]"

section \<open>Key bootstrap: precedence, write-back, no length check\<close>

lemma rand_Read_ok:
  "rnd_err rnd = None \<Longrightarrow> rand_Read rnd (replicate KeyLen 0) = (freshKey rnd, None)"
  by (simp add: rand_Read_def freshKey_def)

lemma rand_Read_fail: "rnd_err rnd = Some e \<Longrightarrow> rand_Read rnd b = (b, Some e)"
  by (simp add: rand_Read_def)

text \<open>
  Claim C1. Whatever the explicit key and the persisted key are, \<^verbatim>\<open>computeClusterKey\<close>
  resolves to the explicit key when it is not empty, else to the persisted key of the
  state when that is not empty, else to a fresh key of 32 bytes read from the random
  source. The last case is the only one that can fail: it returns an error, and no key,
  exactly when the random source does.
\<close>

theorem computeClusterKey_precedence:
  "resolvedKey (computeClusterKey rnd isTerminal st explicit) =
     (if explicit \<noteq> [] then Some explicit
      else if ClusterKey st \<noteq> [] then Some (ClusterKey st)
      else if rnd_err rnd = None then Some (freshKey rnd)
      else None)
   \<and> length (freshKey rnd) = 32"
proof
  show "resolvedKey (computeClusterKey rnd isTerminal st explicit) =
     (if explicit \<noteq> [] then Some explicit
      else if ClusterKey st \<noteq> [] then Some (ClusterKey st)
      else if rnd_err rnd = None then Some (freshKey rnd)
      else None)"
    by (cases "rnd_err rnd")
       (auto simp: computeClusterKey_def resolvedKey_def Let_def rand_Read_ok rand_Read_fail)
  show "length (freshKey rnd) = 32"
    by (simp add: freshKey_def KeyLen_def)
qed

theorem computeClusterKey_precedence_witness:
  "resolvedKey (computeClusterKey demo_rand False \<lparr>ClusterKey = [4, 5], Nodes = []\<rparr> [1, 2, 3])
     = Some [1, 2, 3]
   \<and> resolvedKey (computeClusterKey demo_rand False \<lparr>ClusterKey = [4, 5], Nodes = []\<rparr> [])
     = Some [4, 5]
   \<and> resolvedKey (computeClusterKey demo_rand False \<lparr>ClusterKey = [], Nodes = []\<rparr> [1, 2, 3])
     = Some [1, 2, 3]
   \<and> resolvedKey (computeClusterKey demo_rand False \<lparr>ClusterKey = [], Nodes = []\<rparr> [])
     = Some (freshKey demo_rand)
   \<and> resolvedKey (computeClusterKey broken_rand False \<lparr>ClusterKey = [], Nodes = []\<rparr> [])
     = None
   \<and> length (freshKey demo_rand) = 32"
  using
    computeClusterKey_precedence
      [of demo_rand False "\<lparr>ClusterKey = [4, 5], Nodes = []\<rparr>" "[1, 2, 3]"]
    computeClusterKey_precedence [of demo_rand False "\<lparr>ClusterKey = [4, 5], Nodes = []\<rparr>" "[]"]
    computeClusterKey_precedence [of demo_rand False "\<lparr>ClusterKey = [], Nodes = []\<rparr>" "[1, 2, 3]"]
    computeClusterKey_precedence [of demo_rand False "\<lparr>ClusterKey = [], Nodes = []\<rparr>" "[]"]
    computeClusterKey_precedence [of broken_rand False "\<lparr>ClusterKey = [], Nodes = []\<rparr>" "[]"]
  by (simp add: demo_rand_def broken_rand_def)

text \<open>
  Claim C8. When \<^verbatim>\<open>computeClusterKey\<close> succeeds with a key, from whichever of the
  three sources, the state it leaves has that key in \<^verbatim>\<open>ClusterKey\<close> and is otherwise
  the state it was given: the node list and any further field are untouched.
\<close>

theorem computeClusterKey_stores_key:
  "computeClusterKey rnd isTerminal st explicit = (st', out, Inr key) \<Longrightarrow>
     ClusterKey st' = key \<and> Nodes st' = Nodes st \<and> state.more st' = state.more st
     \<and> st' = st\<lparr>ClusterKey := key\<rparr>"
  by (cases "rnd_err rnd")
     (auto simp: computeClusterKey_def Let_def rand_Read_ok rand_Read_fail split: if_splits)

theorem computeClusterKey_stores_key_witness:
  "computeClusterKey demo_rand True (state demo_cluster) [] =
     ((state demo_cluster)\<lparr>ClusterKey := freshKey demo_rand\<rparr>, Some (freshKey demo_rand),
      Inr (freshKey demo_rand))
   \<and> ClusterKey ((state demo_cluster)\<lparr>ClusterKey := freshKey demo_rand\<rparr>) = freshKey demo_rand
   \<and> Nodes ((state demo_cluster)\<lparr>ClusterKey := freshKey demo_rand\<rparr>) = Nodes (state demo_cluster)
   \<and> computeClusterKey demo_rand True (state demo_cluster) [9, 9] =
       ((state demo_cluster)\<lparr>ClusterKey := [9, 9]\<rparr>, None, Inr [9, 9])"
proof -
  have r: "rnd_err demo_rand = None" by (simp add: demo_rand_def)
  have k: "ClusterKey (state demo_cluster) = []" by (simp add: demo_cluster_def)
  have c: "computeClusterKey demo_rand True (state demo_cluster) [] =
     ((state demo_cluster)\<lparr>ClusterKey := freshKey demo_rand\<rparr>, Some (freshKey demo_rand),
      Inr (freshKey demo_rand))"
    by (simp add: computeClusterKey_def rand_Read_ok r k)
  have d: "computeClusterKey demo_rand True (state demo_cluster) [9, 9] =
       ((state demo_cluster)\<lparr>ClusterKey := [9, 9]\<rparr>, None, Inr [9, 9])"
    by (simp add: computeClusterKey_def Let_def)
  show ?thesis
    using computeClusterKey_stores_key [OF c] c d by simp
qed

text \<open>
  Claim C10. \<^verbatim>\<open>computeClusterKey\<close> checks no length: an explicit key that is not empty
  is returned as it is and stored in the state, whatever its length, and so is a
  persisted key that is not empty when no explicit key is given. \<^verbatim>\<open>KeyLen\<close> is the
  length of the key generated when both are empty, and is used for nothing else.
\<close>

theorem computeClusterKey_keeps_any_length:
  "(explicit \<noteq> [] \<longrightarrow>
      computeClusterKey rnd isTerminal st explicit =
        (st\<lparr>ClusterKey := explicit\<rparr>, None, Inr explicit))
   \<and> (explicit = [] \<and> ClusterKey st \<noteq> [] \<longrightarrow>
      computeClusterKey rnd isTerminal st explicit = (st, None, Inr (ClusterKey st)))
   \<and> (explicit = [] \<and> ClusterKey st = [] \<and> rnd_err rnd = None \<longrightarrow>
      computeClusterKey rnd isTerminal st explicit =
        (st\<lparr>ClusterKey := freshKey rnd\<rparr>, (if isTerminal then Some (freshKey rnd) else None),
         Inr (freshKey rnd))
      \<and> length (freshKey rnd) = KeyLen)"
  by (auto simp: computeClusterKey_def Let_def rand_Read_ok freshKey_def)

theorem computeClusterKey_keeps_any_length_witness:
  "computeClusterKey demo_rand True \<lparr>ClusterKey = [1, 2, 3, 4, 5], Nodes = []\<rparr> [7] =
     (\<lparr>ClusterKey = [7], Nodes = []\<rparr>, None, Inr [7])
   \<and> computeClusterKey demo_rand True \<lparr>ClusterKey = [1, 2, 3, 4, 5], Nodes = []\<rparr> [] =
     (\<lparr>ClusterKey = [1, 2, 3, 4, 5], Nodes = []\<rparr>, None, Inr [1, 2, 3, 4, 5])
   \<and> length [7 :: byte] = 1 \<and> length [1, 2, 3, 4, 5 :: byte] = 5
   \<and> length (freshKey demo_rand) = 32"
  using
    computeClusterKey_keeps_any_length
      [of "[7]" demo_rand True "\<lparr>ClusterKey = [1, 2, 3, 4, 5], Nodes = []\<rparr>"]
    computeClusterKey_keeps_any_length
      [of "[]" demo_rand True "\<lparr>ClusterKey = [1, 2, 3, 4, 5], Nodes = []\<rparr>"]
    computeClusterKey_keeps_any_length
      [of "[]" demo_rand True "\<lparr>ClusterKey = [], Nodes = []\<rparr>"]
  by (simp add: demo_rand_def KeyLen_def)

section \<open>Join: the loops as list functions\<close>

lemma resolveHosts_acc:
  "resolveHosts net addrs hosts = addrs @ concat (map (hostAddrs net) hosts)"
  by (induction hosts arbitrary: addrs)
     (auto simp: hostAddrs_def split: option.splits sum.splits)

lemma addKnownHosts_acc: "addKnownHosts addrs ns = addrs @ map Addr ns"
  by (induction ns arbitrary: addrs) auto

lemma isMember_iff:
  "isMember net members addr = (\<exists>m \<in> set members. IP_Equal net (mlAddr m) addr)"
  by (induction members) auto

lemma filterMembers_acc:
  "filterMembers net members targets addrs =
     targets @ map (IP_String net) (filter (\<lambda>a. \<not> isMember net members a) addrs)"
  by (induction addrs arbitrary: targets) auto

lemma joinAddrs_eq:
  "joinAddrs net c hosts =
     (if concat (map (hostAddrs net) hosts) = [] then map Addr (Nodes (state c))
      else concat (map (hostAddrs net) hosts))"
  by (simp add: joinAddrs_def Let_def resolveHosts_acc addKnownHosts_acc)

lemma joinTargets_eq:
  "joinTargets api net c hosts =
     map (IP_String net) (filter (\<lambda>a. \<not> memberAddr api net c a) (joinAddrs net c hosts))"
  by (simp add: joinTargets_def filterMembers_acc isMember_iff memberAddr_def)

lemma Join_calls: "fst (snd (Join api net c hosts)) = [MlJoin (joinTargets api net c hosts)]"
  by (simp add: Join_def Let_def split: prod.splits option.splits)

lemma Join_error:
  "ml_Join api (ml c) (joinTargets api net c hosts) = (m1, joined, err) \<Longrightarrow>
   snd (snd (Join api net c hosts)) =
     (case err of
        Some e \<Rightarrow> Some (JoiningCluster e)
      | None \<Rightarrow> if joinTargets api net c hosts \<noteq> [] \<and> ml_NumMembers api m1 < 2
                then Some CouldNotJoinAny else None)"
  by (simp add: Join_def Let_def split: option.splits)

lemma resolveHosts_split:
  "resolveHosts net [] (pre @ h # post) =
     resolveHosts net [] pre @ hostAddrs net h @ resolveHosts net [] post"
  by (simp add: resolveHosts_acc)

lemma Join_cong:
  "resolveHosts net [] hosts = resolveHosts net [] hosts' \<Longrightarrow>
   Join api net c hosts = Join api net c hosts'"
  by (simp add: Join_def joinTargets_def joinAddrs_def)

section \<open>Join: quorum, filtering, fallback, resolution\<close>

text \<open>
  Claim C2. When at least one target is left after filtering, so that the engine is
  asked to join it, and the engine counts fewer than 2 members after that call,
  \<^verbatim>\<open>Join\<close> returns an error: the engine's own error, wrapped, when it reported one,
  and "could not join to any of the provided addresses" when it reported none.
\<close>

theorem Join_quorum_error:
  assumes "joinTargets api net c hosts \<noteq> []"
    and "ml_Join api (ml c) (joinTargets api net c hosts) = (m1, joined, err)"
    and "ml_NumMembers api m1 < 2"
  shows "fst (snd (Join api net c hosts)) = [MlJoin (joinTargets api net c hosts)]
         \<and> snd (snd (Join api net c hosts)) =
             Some (case err of None \<Rightarrow> CouldNotJoinAny | Some e \<Rightarrow> JoiningCluster e)"
  using assms by (simp add: Join_calls Join_error split: option.splits)

theorem Join_quorum_error_witness:
  "joinTargets loopback_api demo_net demo_cluster [''10.0.0.9''] = [''10.0.0.9'']
   \<and> ml_Join loopback_api (ml demo_cluster) [''10.0.0.9''] = ([host1], 1, None)
   \<and> ml_NumMembers loopback_api [host1] = 1
   \<and> snd (snd (Join loopback_api demo_net demo_cluster [''10.0.0.9''])) = Some CouldNotJoinAny"
proof -
  have t: "joinTargets loopback_api demo_net demo_cluster [''10.0.0.9''] = [''10.0.0.9'']"
    by (simp add: joinTargets_def joinAddrs_def loopback_api_def demo_api_def demo_net_def
          demo_cluster_def host1_def)
  have j: "ml_Join loopback_api (ml demo_cluster) [''10.0.0.9''] = ([host1], 1, None)"
    by (simp add: loopback_api_def demo_api_def demo_cluster_def)
  have n: "ml_NumMembers loopback_api [host1] = 1"
    by (simp add: loopback_api_def demo_api_def)
  have "snd (snd (Join loopback_api demo_net demo_cluster [''10.0.0.9''])) = Some CouldNotJoinAny"
    using Join_quorum_error
            [of loopback_api demo_net demo_cluster "[''10.0.0.9'']" "[host1]" 1 None]
      t j n
    by simp
  with t j n show ?thesis by simp
qed

text \<open>
  Claim C3. The targets \<^verbatim>\<open>Join\<close> hands to the engine are the printed forms of exactly
  those candidate addresses that equal (by \<^verbatim>\<open>IP.Equal\<close>) no live member's address, in
  order. With a member at address A and none at B, the hosts A and B give the single
  target B. The host A alone gives an engine call with no target at all, and \<^verbatim>\<open>Join\<close>
  returns nil, provided the engine reports no error for a join of no address.
\<close>

theorem Join_skips_members:
  "fst (snd (Join api net c hosts)) =
     [MlJoin (map (IP_String net)
        (filter (\<lambda>a. \<not> memberAddr api net c a) (joinAddrs net c hosts)))]
   \<and> (ParseIP net hostA = Some a \<and> ParseIP net hostB = Some b
        \<and> memberAddr api net c a \<and> \<not> memberAddr api net c b \<longrightarrow>
      fst (snd (Join api net c [hostA, hostB])) = [MlJoin [IP_String net b]])
   \<and> (ParseIP net hostA = Some a \<and> memberAddr api net c a
        \<and> snd (snd (ml_Join api (ml c) [])) = None \<longrightarrow>
      fst (snd (Join api net c [hostA])) = [MlJoin []]
      \<and> snd (snd (Join api net c [hostA])) = None)"
proof (intro conjI impI)
  show "fst (snd (Join api net c hosts)) =
     [MlJoin (map (IP_String net)
        (filter (\<lambda>a. \<not> memberAddr api net c a) (joinAddrs net c hosts)))]"
    by (simp add: Join_calls joinTargets_eq)
next
  assume h: "ParseIP net hostA = Some a \<and> ParseIP net hostB = Some b
        \<and> memberAddr api net c a \<and> \<not> memberAddr api net c b"
  then have "joinAddrs net c [hostA, hostB] = [a, b]"
    by (simp add: joinAddrs_eq hostAddrs_def)
  with h show "fst (snd (Join api net c [hostA, hostB])) = [MlJoin [IP_String net b]]"
    by (simp add: Join_calls joinTargets_eq)
next
  assume h: "ParseIP net hostA = Some a \<and> memberAddr api net c a
        \<and> snd (snd (ml_Join api (ml c) [])) = None"
  then have "joinAddrs net c [hostA] = [a]"
    by (simp add: joinAddrs_eq hostAddrs_def)
  with h have t: "joinTargets api net c [hostA] = []"
    by (simp add: joinTargets_eq)
  then show "fst (snd (Join api net c [hostA])) = [MlJoin []]"
    by (simp add: Join_calls)
  obtain m1 joined err where j: "ml_Join api (ml c) [] = (m1, joined, err)"
    by (cases "ml_Join api (ml c) []") auto
  with h have "err = None" by simp
  with j t show "snd (snd (Join api net c [hostA])) = None"
    using Join_error [of api c net "[hostA]" m1 joined err] by simp
qed

theorem Join_skips_members_witness:
  "fst (snd (Join demo_api demo_net demo_cluster [''10.0.0.1'', ''10.0.0.2''])) =
     [MlJoin [''10.0.0.2'']]
   \<and> fst (snd (Join demo_api demo_net demo_cluster [''10.0.0.1''])) = [MlJoin []]
   \<and> snd (snd (Join demo_api demo_net demo_cluster [''10.0.0.1''])) = None"
proof -
  have a: "ParseIP demo_net ''10.0.0.1'' = Some [10, 0, 0, 1]"
    and b: "ParseIP demo_net ''10.0.0.2'' = Some [10, 0, 0, 2]"
    and s: "IP_String demo_net [10, 0, 0, 2] = ''10.0.0.2''"
    by (simp_all add: demo_net_def)
  have ma: "memberAddr demo_api demo_net demo_cluster [10, 0, 0, 1]"
    and mb: "\<not> memberAddr demo_api demo_net demo_cluster [10, 0, 0, 2]"
    by (simp_all add: memberAddr_def demo_api_def demo_net_def demo_cluster_def host1_def)
  have e: "snd (snd (ml_Join demo_api (ml demo_cluster) [])) = None"
    by (simp add: demo_api_def)
  show ?thesis
    using Join_skips_members
            [of demo_api demo_net demo_cluster "[]" "''10.0.0.1''" "[10, 0, 0, 1]"
               "''10.0.0.2''" "[10, 0, 0, 2]"]
      a b s ma mb e
    by simp
qed

text \<open>
  Claim C4, as the code has it. The candidates of \<^verbatim>\<open>Join\<close> are the addresses of the
  known nodes of the persisted state whenever the hosts resolve to no address at all:
  when no host is supplied, and also when hosts are supplied and none of them parses or
  resolves. When some host yields an address, the candidates are the resolved addresses
  and the known nodes are not used.
\<close>

theorem Join_known_hosts_fallback:
  "joinAddrs net c hosts =
     (if concat (map (hostAddrs net) hosts) = [] then map Addr (Nodes (state c))
      else concat (map (hostAddrs net) hosts))
   \<and> (hosts = [] \<longrightarrow> joinAddrs net c hosts = map Addr (Nodes (state c)))"
  by (simp add: joinAddrs_eq)

theorem Join_known_hosts_fallback_witness:
  "joinAddrs demo_net demo_cluster [] = [[10, 0, 0, 3]]
   \<and> joinAddrs demo_net demo_cluster [''nohost.invalid''] = [[10, 0, 0, 3]]
   \<and> joinAddrs demo_net demo_cluster [''nohost.invalid'', ''10.0.0.2''] = [[10, 0, 0, 2]]"
  using Join_known_hosts_fallback [of demo_net demo_cluster "[]"]
    Join_known_hosts_fallback [of demo_net demo_cluster "[''nohost.invalid'']"]
    Join_known_hosts_fallback [of demo_net demo_cluster "[''nohost.invalid'', ''10.0.0.2'']"]
  by (simp add: hostAddrs_def demo_net_def demo_cluster_def)

text \<open>
  Claim C4 as it is written fails: a call with one supplied host whose name lookup
  fails takes its candidates from the persisted peer list and asks the engine to join
  the known node at 10.0.0.3.
\<close>

theorem Join_known_hosts_counterexample:
  "[''nohost.invalid''] \<noteq> ([] :: string list)
   \<and> map Addr (Nodes (state demo_cluster)) = [[10, 0, 0, 3]]
   \<and> joinAddrs demo_net demo_cluster [''nohost.invalid''] = [[10, 0, 0, 3]]
   \<and> fst (snd (Join demo_api demo_net demo_cluster [''nohost.invalid''])) =
       [MlJoin [''10.0.0.3'']]"
  by (simp add: Join_def joinTargets_def joinAddrs_def demo_api_def demo_net_def demo_cluster_def
        host1_def)

text \<open>
  Claim C5. A host that parses as a literal address contributes that address; any other
  host contributes the addresses its name lookup returns; a host whose lookup fails
  contributes nothing, and \<^verbatim>\<open>Join\<close> then does exactly what it does without that host
  in the list, so the failed lookup is the cause of no error.
\<close>

theorem Join_resolves_best_effort:
  "(ParseIP net h = Some a \<longrightarrow>
      resolveHosts net [] (pre @ h # post) =
        resolveHosts net [] pre @ [a] @ resolveHosts net [] post)
   \<and> (ParseIP net h = None \<and> LookupIP net h = Inr ips \<longrightarrow>
      resolveHosts net [] (pre @ h # post) =
        resolveHosts net [] pre @ ips @ resolveHosts net [] post)
   \<and> (ParseIP net h = None \<and> LookupIP net h = Inl e \<longrightarrow>
      resolveHosts net [] (pre @ h # post) = resolveHosts net [] (pre @ post)
      \<and> Join api net c (pre @ h # post) = Join api net c (pre @ post))"
proof (intro conjI impI)
  assume "ParseIP net h = Some a"
  then show "resolveHosts net [] (pre @ h # post) =
        resolveHosts net [] pre @ [a] @ resolveHosts net [] post"
    by (simp add: resolveHosts_split hostAddrs_def)
next
  assume "ParseIP net h = None \<and> LookupIP net h = Inr ips"
  then show "resolveHosts net [] (pre @ h # post) =
        resolveHosts net [] pre @ ips @ resolveHosts net [] post"
    by (simp add: resolveHosts_split hostAddrs_def)
next
  assume "ParseIP net h = None \<and> LookupIP net h = Inl e"
  then show r: "resolveHosts net [] (pre @ h # post) = resolveHosts net [] (pre @ post)"
    by (simp add: resolveHosts_acc hostAddrs_def)
  then show "Join api net c (pre @ h # post) = Join api net c (pre @ post)"
    by (rule Join_cong)
qed

theorem Join_resolves_best_effort_witness:
  "resolveHosts demo_net [] [''10.0.0.2''] = [[10, 0, 0, 2]]
   \<and> resolveHosts demo_net [] [''peer3.example''] = [[10, 0, 0, 3]]
   \<and> resolveHosts demo_net [] [''peer3.example'', ''nohost.invalid'', ''10.0.0.2''] =
       resolveHosts demo_net [] [''peer3.example'', ''10.0.0.2'']
   \<and> Join demo_api demo_net demo_cluster [''peer3.example'', ''nohost.invalid'', ''10.0.0.2''] =
       Join demo_api demo_net demo_cluster [''peer3.example'', ''10.0.0.2'']
   \<and> snd (snd (Join demo_api demo_net demo_cluster [''peer3.example'', ''10.0.0.2''])) = None"
proof -
  have p2: "ParseIP demo_net ''10.0.0.2'' = Some [10, 0, 0, 2]"
    and p3: "ParseIP demo_net ''peer3.example'' = None
             \<and> LookupIP demo_net ''peer3.example'' = Inr [[10, 0, 0, 3]]"
    and pn: "ParseIP demo_net ''nohost.invalid'' = None
             \<and> LookupIP demo_net ''nohost.invalid'' = Inl ''no such host''"
    by (simp_all add: demo_net_def)
  have ok: "snd (snd (Join demo_api demo_net demo_cluster [''peer3.example'', ''10.0.0.2''])) = None"
    by (simp add: Join_def joinTargets_def joinAddrs_def demo_api_def demo_net_def
          demo_cluster_def host1_def)
  show ?thesis
    using Join_resolves_best_effort [of demo_net "''10.0.0.2''" "[10, 0, 0, 2]" "[]" "[]"] p2
      Join_resolves_best_effort [of demo_net "''peer3.example''" _ "[]" "[]" "[[10, 0, 0, 3]]"] p3
      Join_resolves_best_effort
        [of demo_net "''nohost.invalid''" _ "[''peer3.example'']" "[''10.0.0.2'']" _
            "''no such host''" demo_api demo_cluster]
      pn ok
    by simp
qed

section \<open>Leave\<close>

text \<open>
  Claim C6. \<^verbatim>\<open>Leave\<close> makes three calls and in this order: it saves the state the
  cluster holds at the call under the cluster's name, then tells the engine to leave
  with a timeout of ten seconds, then shuts the engine down. The save is the first
  call, so it comes before the departure broadcast.
\<close>

theorem Leave_saves_then_leaves_then_shuts_down:
  "Leave api c =
     (c\<lparr>ml := ml_Shutdown api (ml_Leave api (ml c) (10 * Second))\<rparr>,
      [StateSave (name c) (state c), MlLeave (10 * Second), MlShutdown])
   \<and> 10 * Second = 10000000000"
  by (simp add: Leave_def state_save_def engine_Leave_def engine_Shutdown_def Second_def)

theorem Leave_saves_then_leaves_then_shuts_down_witness:
  "snd (Leave demo_api demo_cluster) =
     [StateSave ''wgoverlay''
        \<lparr>ClusterKey = [], Nodes = [\<lparr>Name = ''host3'', Addr = [10, 0, 0, 3], Meta = [2]\<rparr>]\<rparr>,
      MlLeave 10000000000, MlShutdown]
   \<and> ml (fst (Leave demo_api demo_cluster)) = []"
  using Leave_saves_then_leaves_then_shuts_down [of demo_api demo_cluster]
  by (simp add: demo_api_def demo_cluster_def)

section \<open>Members: the published snapshots\<close>

lemma snapshotNodes_acc:
  "snapshotNodes localName nodes ns = nodes @ rosterWithout localName ns"
  by (induction ns arbitrary: nodes) (auto simp: rosterWithout_def)

lemma rosterWithout_names: "localName \<notin> Name ` set (rosterWithout localName members)"
  by (auto simp: rosterWithout_def)

lemma published_append: "published (xs @ ys) = published xs @ published ys"
  by (induction xs rule: published.induct) auto

lemma membersTurn_self:
  "mlName (Node event) = LocalName c \<Longrightarrow>
   membersTurn api (c, calls) (event, engine) = (c\<lparr>ml := engine\<rparr>, calls)"
  by (simp add: membersTurn_def)

lemma membersTurn_other:
  "mlName (Node event) \<noteq> LocalName c \<Longrightarrow>
   membersTurn api (c, calls) (event, engine) =
     (c\<lparr>ml := engine,
        state := (state c)\<lparr>Nodes := rosterWithout (LocalName c) (ml_Members api engine)\<rparr>\<rparr>,
      calls @ [LogInfo (Event event) (Node event),
               Publish (rosterWithout (LocalName c) (ml_Members api engine)),
               StateSave (name c)
                 ((state c)\<lparr>Nodes := rosterWithout (LocalName c) (ml_Members api engine)\<rparr>)])"
  by (simp add: membersTurn_def Let_def state_save_def snapshotNodes_acc)

lemma membersTurn_LocalName:
  "LocalName (fst (membersTurn api (c, calls) r)) = LocalName c"
  by (cases r) (simp add: membersTurn_def Let_def state_save_def)

lemma membersTurn_published:
  "published (snd (membersTurn api (c, calls) (event, engine))) =
     published calls @
       (if mlName (Node event) = LocalName c then []
        else [rosterWithout (LocalName c) (ml_Members api engine)])"
  by (simp add: membersTurn_self membersTurn_other published_append)

lemma membersLoop_published:
  "published (snd (membersLoop api (c, calls) received)) =
     published calls @
       map (\<lambda>r. rosterWithout (LocalName c) (ml_Members api (snd r)))
         (filter (\<lambda>r. mlName (Node (fst r)) \<noteq> LocalName c) received)"
proof (induction received arbitrary: c calls)
  case Nil
  then show ?case by simp
next
  case (Cons r rest)
  obtain event engine where r: "r = (event, engine)" by (cases r)
  obtain c1 calls1 where t: "membersTurn api (c, calls) (event, engine) = (c1, calls1)"
    by (cases "membersTurn api (c, calls) (event, engine)")
  have ln: "LocalName c1 = LocalName c"
    using membersTurn_LocalName [of api c calls "(event, engine)"] t by simp
  have p: "published calls1 = published calls @
       (if mlName (Node event) = LocalName c then []
        else [rosterWithout (LocalName c) (ml_Members api engine)])"
    using membersTurn_published [of api c calls event engine] t by simp
  show ?case
    using Cons.IH [of c1 calls1] by (simp add: r t ln p)
qed

text \<open>
  Claim C7. No snapshot sent on the channel of \<^verbatim>\<open>Members\<close> holds a node named like the
  local node, whatever events arrive. An event about a node of the local name is
  dropped: nothing is logged, sent or saved, and the state is not touched. Any other
  event sends exactly one snapshot, the engine's whole roster at that moment without
  the entries of the local name, which is also stored as the known nodes.
\<close>

theorem Members_never_publishes_self:
  "(\<forall>snapshot \<in> set (published (snd (membersLoop api (c, []) received))).
      LocalName c \<notin> Name ` set snapshot)
   \<and> (mlName (Node event) = LocalName c \<longrightarrow>
        membersTurn api (c, calls) (event, engine) = (c\<lparr>ml := engine\<rparr>, calls))
   \<and> (mlName (Node event) \<noteq> LocalName c \<longrightarrow>
        published (snd (membersTurn api (c, calls) (event, engine))) =
          published calls @ [rosterWithout (LocalName c) (ml_Members api engine)]
        \<and> Nodes (state (fst (membersTurn api (c, calls) (event, engine)))) =
            rosterWithout (LocalName c) (ml_Members api engine))"
proof (intro conjI impI ballI)
  fix snapshot
  assume "snapshot \<in> set (published (snd (membersLoop api (c, []) received)))"
  then obtain r where "snapshot = rosterWithout (LocalName c) (ml_Members api (snd r))"
    by (auto simp: membersLoop_published)
  then show "LocalName c \<notin> Name ` set snapshot"
    by (simp only: rosterWithout_names not_False_eq_True)
next
  assume "mlName (Node event) = LocalName c"
  then show "membersTurn api (c, calls) (event, engine) = (c\<lparr>ml := engine\<rparr>, calls)"
    by (rule membersTurn_self)
next
  assume h: "mlName (Node event) \<noteq> LocalName c"
  then show "published (snd (membersTurn api (c, calls) (event, engine))) =
          published calls @ [rosterWithout (LocalName c) (ml_Members api engine)]"
    by (simp add: membersTurn_published)
  from h show "Nodes (state (fst (membersTurn api (c, calls) (event, engine)))) =
            rosterWithout (LocalName c) (ml_Members api engine)"
    by (simp add: membersTurn_other)
qed

theorem Members_never_publishes_self_witness:
  "published (snd (membersLoop demo_api (demo_cluster, []) demo_events)) =
     [[\<lparr>Name = ''host2'', Addr = [10, 0, 0, 2], Meta = [1]\<rparr>],
      [\<lparr>Name = ''host3'', Addr = [10, 0, 0, 3], Meta = [2]\<rparr>,
       \<lparr>Name = ''host2'', Addr = [10, 0, 0, 2], Meta = [1]\<rparr>]]
   \<and> ''host1'' \<notin> Name ` set [\<lparr>Name = ''host2'', Addr = [10, 0, 0, 2], Meta = [1]\<rparr>]
   \<and> ''host1'' \<notin> Name ` set [\<lparr>Name = ''host3'', Addr = [10, 0, 0, 3], Meta = [2]\<rparr>,
                               \<lparr>Name = ''host2'', Addr = [10, 0, 0, 2], Meta = [1]\<rparr>]
   \<and> membersTurn demo_api (demo_cluster, []) (\<lparr>Event = NodeUpdate, Node = host1\<rparr>, [host1]) =
       (demo_cluster, [])
   \<and> published (snd (membersTurn demo_api (demo_cluster, [])
        (\<lparr>Event = NodeLeave, Node = host3\<rparr>, [host1, host2]))) =
       [[\<lparr>Name = ''host2'', Addr = [10, 0, 0, 2], Meta = [1]\<rparr>]]"
proof -
  have p: "published (snd (membersLoop demo_api (demo_cluster, []) demo_events)) =
     [[\<lparr>Name = ''host2'', Addr = [10, 0, 0, 2], Meta = [1]\<rparr>],
      [\<lparr>Name = ''host3'', Addr = [10, 0, 0, 3], Meta = [2]\<rparr>,
       \<lparr>Name = ''host2'', Addr = [10, 0, 0, 2], Meta = [1]\<rparr>]]"
    by (simp add: membersTurn_def state_save_def Let_def demo_events_def demo_api_def
          demo_cluster_def host1_def host2_def host3_def)
  have l: "LocalName demo_cluster = ''host1''"
    and m: "demo_cluster\<lparr>ml := [host1]\<rparr> = demo_cluster"
    by (simp_all add: demo_cluster_def)
  have n1: "mlName (Node \<lparr>Event = NodeUpdate, Node = host1\<rparr>) = LocalName demo_cluster"
    and n3: "mlName (Node \<lparr>Event = NodeLeave, Node = host3\<rparr>) \<noteq> LocalName demo_cluster"
    by (simp_all add: demo_cluster_def host1_def host3_def)
  have r: "rosterWithout ''host1'' (ml_Members demo_api [host1, host2]) =
       [\<lparr>Name = ''host2'', Addr = [10, 0, 0, 2], Meta = [1]\<rparr>]"
    by (simp add: rosterWithout_def demo_api_def host1_def host2_def)
  show ?thesis
    using
      Members_never_publishes_self
        [of demo_api demo_cluster demo_events "\<lparr>Event = NodeUpdate, Node = host1\<rparr>" "[]"
            "[host1]"]
      Members_never_publishes_self
        [of demo_api demo_cluster demo_events "\<lparr>Event = NodeLeave, Node = host3\<rparr>" "[]"
            "[host1, host2]"]
      p l m n1 n3 r
    by simp
qed

section \<open>Name and Update\<close>

lemma membersTurn_localNode:
  "localNode (fst (membersTurn api (c, calls) r)) = localNode c"
  by (cases r) (simp add: membersTurn_def Let_def state_save_def)

lemma membersLoop_localNode:
  "localNode (fst (membersLoop api (c, calls) received)) = localNode c"
proof (induction received arbitrary: c calls)
  case Nil
  then show ?case by simp
next
  case (Cons r rest)
  obtain c1 calls1 where t: "membersTurn api (c, calls) r = (c1, calls1)"
    by (cases "membersTurn api (c, calls) r")
  have "localNode c1 = localNode c"
    using membersTurn_localNode [of api c calls r] t by simp
  then show ?case
    using Cons.IH [of c1 calls1] by (simp add: t)
qed

lemma New_localNode:
  "snd (New api files rnd isTerminal nm init key bindAddr bindPort advAddr advPort useIP) = Inr c
     \<Longrightarrow> localNode c = None"
  by (auto simp: New_def Let_def split: prod.splits sum.splits)

text \<open>
  Claim C9. On a cluster as \<^verbatim>\<open>New\<close> returns it, \<^verbatim>\<open>Name()\<close> reads through the nil
  \<^verbatim>\<open>localNode\<close> pointer and panics. \<^verbatim>\<open>Update\<close> with a node makes \<^verbatim>\<open>Name()\<close> return
  that node's name, and it is the only method that assigns \<^verbatim>\<open>localNode\<close>: \<^verbatim>\<open>Join\<close>,
  \<^verbatim>\<open>Leave\<close> and the loop of \<^verbatim>\<open>Members\<close> leave it as it is. \<^verbatim>\<open>LocalName\<close> is another
  field, which \<^verbatim>\<open>Update\<close> does not change.
\<close>

theorem Name_needs_Update:
  "(snd (New api files rnd isTerminal nm init key bindAddr bindPort advAddr advPort useIP) = Inr c
      \<longrightarrow> Cluster_Name c = Inl NilPointerDereference)
   \<and> Cluster_Name (fst (Update api c0 (Some n))) = Inr (Name n)
   \<and> LocalName (fst (Update api c0 ln)) = LocalName c0
   \<and> localNode (fst (Join api net c0 hosts)) = localNode c0
   \<and> localNode (fst (Leave api c0)) = localNode c0
   \<and> localNode (fst (membersLoop api (c0, calls) received)) = localNode c0"
proof (intro conjI impI)
  assume "snd (New api files rnd isTerminal nm init key bindAddr bindPort advAddr advPort useIP)
            = Inr c"
  then have "localNode c = None" by (rule New_localNode)
  then show "Cluster_Name c = Inl NilPointerDereference"
    by (simp add: Cluster_Name_def)
next
  show "Cluster_Name (fst (Update api c0 (Some n))) = Inr (Name n)"
    by (simp add: Update_def Let_def engine_UpdateNode_def Cluster_Name_def)
next
  show "LocalName (fst (Update api c0 ln)) = LocalName c0"
    by (simp add: Update_def Let_def engine_UpdateNode_def)
next
  show "localNode (fst (Join api net c0 hosts)) = localNode c0"
    by (simp add: Join_def Let_def split: prod.splits option.splits)
next
  show "localNode (fst (Leave api c0)) = localNode c0"
    by (simp add: Leave_def state_save_def engine_Leave_def engine_Shutdown_def)
next
  show "localNode (fst (membersLoop api (c0, calls) received)) = localNode c0"
    by (rule membersLoop_localNode)
qed

theorem Name_needs_Update_witness:
  "snd (New demo_api Map.empty demo_rand False ''wgoverlay'' True [1, 2, 3] ''10.0.0.1'' 7946 []
          7946 True) =
     Inr \<lparr>name = ''wgoverlay'',
          ml = [\<lparr>mlName = ''10.0.0.1'', mlAddr = [10, 0, 0, 1], mlMeta = []\<rparr>],
          mlConfig = \<lparr>cfgName = ''10.0.0.1'', SecretKey = [1, 2, 3], BindAddr = ''10.0.0.1'',
                      BindPort = 7946, AdvertiseAddr = [], AdvertisePort = 7946,
                      Conflict = None, Delegate = None, Events = False\<rparr>,
          localNode = None, LocalName = ''10.0.0.1'',
          state = \<lparr>ClusterKey = [1, 2, 3], Nodes = []\<rparr>\<rparr>
   \<and> Cluster_Name \<lparr>name = ''wgoverlay'',
          ml = [\<lparr>mlName = ''10.0.0.1'', mlAddr = [10, 0, 0, 1], mlMeta = []\<rparr>],
          mlConfig = \<lparr>cfgName = ''10.0.0.1'', SecretKey = [1, 2, 3], BindAddr = ''10.0.0.1'',
                      BindPort = 7946, AdvertiseAddr = [], AdvertisePort = 7946,
                      Conflict = None, Delegate = None, Events = False\<rparr>,
          localNode = None, LocalName = ''10.0.0.1'',
          state = \<lparr>ClusterKey = [1, 2, 3], Nodes = []\<rparr>\<rparr> = Inl NilPointerDereference
   \<and> Cluster_Name (fst (Update demo_api demo_cluster
        (Some \<lparr>Name = ''host1'', Addr = [10, 0, 0, 1], Meta = []\<rparr>))) = Inr ''host1''"
proof -
  have n: "snd (New demo_api Map.empty demo_rand False ''wgoverlay'' True [1, 2, 3] ''10.0.0.1''
                  7946 [] 7946 True) =
     Inr \<lparr>name = ''wgoverlay'',
          ml = [\<lparr>mlName = ''10.0.0.1'', mlAddr = [10, 0, 0, 1], mlMeta = []\<rparr>],
          mlConfig = \<lparr>cfgName = ''10.0.0.1'', SecretKey = [1, 2, 3], BindAddr = ''10.0.0.1'',
                      BindPort = 7946, AdvertiseAddr = [], AdvertisePort = 7946,
                      Conflict = None, Delegate = None, Events = False\<rparr>,
          localNode = None, LocalName = ''10.0.0.1'',
          state = \<lparr>ClusterKey = [1, 2, 3], Nodes = []\<rparr>\<rparr>"
    by (simp add: New_def computeClusterKey_def Let_def demo_api_def demo_config_def)
  show ?thesis
    using Name_needs_Update
            [of demo_api Map.empty demo_rand False "''wgoverlay''" True "[1, 2, 3]"
               "''10.0.0.1''" 7946 "[]" 7946 True _ demo_cluster
               "\<lparr>Name = ''host1'', Addr = [10, 0, 0, 1], Meta = []\<rparr>"]
      n
    by simp
qed

end
